theory Spec2Isabelle
  imports Complex_Main "HOL-Library.AList"
begin

section \<open>JAQS strategy engine (jaqs/trade/strategy.py)\<close>

text \<open>
  A shallow embedding of the classes \<open>Strategy\<close> and \<open>AlphaStrategy\<close>. The module is
  Python 2 (\<open>print\<close> statements, \<open>viewitems\<close>), so \<open>round\<close> rounds halves away from
  zero.
\<close>

subsection \<open>Exceptions\<close>

datatype error =
    NotImplementedError
  | AssertionError
  | AttributeError
  | ValueError
  | KeyError
  | TypeError
  | OverflowError

subsection \<open>Floating-point values\<close>

text \<open>
  A Python or numpy float is a finite number, an infinity or NaN. The special values
  follow IEEE 754 as numpy computes them (no exception on a division by zero); the sign
  of a zero is not modelled, every zero is \<open>+0.0\<close>.

  The operations \<open>fadd\<close>, \<open>fsub\<close>, \<open>fmul\<close> and \<open>fdiv\<close> of this subsection are exact on
  finite values: they leave out the rounding of a double and the overflow of a finite
  result. They serve where a result is only compared within a tolerance or with another
  float (the normalization of weights, the Monte-Carlo search). The next subsection
  rounds every result to a double, as the machine does; \<open>generate_weights_order\<close>,
  whose share counts depend on the last bit at a half lot, is modelled with those.
\<close>

datatype float = Finite real | PInf | NInf | NaN

fun isnan :: "float \<Rightarrow> bool" where
  "isnan NaN = True"
| "isnan _ = False"

fun fneg :: "float \<Rightarrow> float" where
  "fneg (Finite x) = Finite (- x)"
| "fneg PInf = NInf"
| "fneg NInf = PInf"
| "fneg NaN = NaN"

fun fabs :: "float \<Rightarrow> float" where
  "fabs (Finite x) = Finite \<bar>x\<bar>"
| "fabs PInf = PInf"
| "fabs NInf = PInf"
| "fabs NaN = NaN"

fun fadd :: "float \<Rightarrow> float \<Rightarrow> float" where
  "fadd (Finite x) (Finite y) = Finite (x + y)"
| "fadd (Finite x) PInf = PInf"
| "fadd (Finite x) NInf = NInf"
| "fadd PInf (Finite y) = PInf"
| "fadd PInf PInf = PInf"
| "fadd PInf NInf = NaN"
| "fadd NInf (Finite y) = NInf"
| "fadd NInf NInf = NInf"
| "fadd NInf PInf = NaN"
| "fadd NaN _ = NaN"
| "fadd _ NaN = NaN"


text \<open>The product of an infinity and a number takes the sign of the number; \<open>inf * 0\<close> is NaN.\<close>

definition inf_signed :: "bool \<Rightarrow> real \<Rightarrow> float" where
  "inf_signed pos x = (if x = 0 then NaN else if (0 < x) = pos then PInf else NInf)"

fun fmul :: "float \<Rightarrow> float \<Rightarrow> float" where
  "fmul (Finite x) (Finite y) = Finite (x * y)"
| "fmul (Finite x) PInf = inf_signed True x"
| "fmul (Finite x) NInf = inf_signed False x"
| "fmul PInf (Finite y) = inf_signed True y"
| "fmul NInf (Finite y) = inf_signed False y"
| "fmul PInf PInf = PInf"
| "fmul PInf NInf = NInf"
| "fmul NInf PInf = NInf"
| "fmul NInf NInf = PInf"
| "fmul NaN _ = NaN"
| "fmul _ NaN = NaN"

fun fdiv :: "float \<Rightarrow> float \<Rightarrow> float" where
  "fdiv (Finite x) (Finite y) =
     (if y \<noteq> 0 then Finite (x / y)
      else if x = 0 then NaN else if 0 < x then PInf else NInf)"
| "fdiv (Finite x) PInf = Finite 0"
| "fdiv (Finite x) NInf = Finite 0"
| "fdiv PInf (Finite y) = (if 0 \<le> y then PInf else NInf)"
| "fdiv NInf (Finite y) = (if 0 \<le> y then NInf else PInf)"
| "fdiv PInf PInf = NaN"
| "fdiv PInf NInf = NaN"
| "fdiv NInf PInf = NaN"
| "fdiv NInf NInf = NaN"
| "fdiv NaN _ = NaN"
| "fdiv _ NaN = NaN"

text \<open>\<open>a < b\<close>; every comparison with NaN is false.\<close>

fun fless :: "float \<Rightarrow> float \<Rightarrow> bool" where
  "fless (Finite x) (Finite y) = (x < y)"
| "fless (Finite x) PInf = True"
| "fless NInf (Finite y) = True"
| "fless NInf PInf = True"
| "fless _ _ = False"

text \<open>\<open>a <= b\<close>, used to state bounds.\<close>

fun fle :: "float \<Rightarrow> float \<Rightarrow> bool" where
  "fle (Finite x) (Finite y) = (x \<le> y)"
| "fle (Finite x) PInf = True"
| "fle NInf (Finite y) = True"
| "fle NInf PInf = True"
| "fle PInf PInf = True"
| "fle NInf NInf = True"
| "fle _ _ = False"

text \<open>Python 2 \<open>round(x, 0)\<close>: to the nearest integer, halves away from zero; a float again.\<close>

fun py_round :: "float \<Rightarrow> float" where
  "py_round (Finite x) =
     Finite (of_int (if 0 \<le> x then \<lfloor>x + 1 / 2\<rfloor> else \<lceil>x - 1 / 2\<rceil>))"
| "py_round f = f"

text \<open>\<open>int(x)\<close> truncates toward zero; it raises on NaN and on an infinity.\<close>

fun py_int :: "float \<Rightarrow> error + int" where
  "py_int (Finite x) = Inr (if 0 \<le> x then \<lfloor>x\<rfloor> else \<lceil>x\<rceil>)"
| "py_int NaN = Inl ValueError"
| "py_int _ = Inl OverflowError"

text \<open>\<open>np.sum\<close> of a list of floats; the sum of no element is \<open>0.0\<close>.\<close>

definition np_sum :: "float list \<Rightarrow> float" where
  "np_sum xs = fold (\<lambda>x s. fadd s x) xs (Finite 0)"

subsection \<open>Double precision\<close>

text \<open>
  An arithmetic operation on doubles returns the exact result rounded to the nearest
  double (IEEE 754 binary64, round to nearest, ties to even). The largest double:
\<close>

definition max_double :: real where
  "max_double = (2 ^ 53 - 1) * 2 ^ 971"

text \<open>Rounding to the nearest integer, halves to the even one.\<close>

definition round_half_even :: "real \<Rightarrow> int" where
  "round_half_even x =
     (let f = \<lfloor>x\<rfloor> in
      if x - of_int f < 1 / 2 then f
      else if 1 / 2 < x - of_int f then f + 1
      else if even f then f else f + 1)"

text \<open>
  The distance between neighbouring doubles around \<open>x\<close>: a double has 53 significant
  bits, and an exponent of at least -1022 (below it the doubles are subnormal, equally
  spaced).
\<close>

definition ulp :: "real \<Rightarrow> real" where
  "ulp x = 2 powr of_int (max \<lfloor>log 2 \<bar>x\<bar>\<rfloor> (- 1022) - 52)"

text \<open>
  The double nearest to a real number, halves to the even significand; beyond the largest
  double the result is an infinity.
\<close>

definition round_double :: "real \<Rightarrow> float" where
  "round_double x =
     (if x = 0 then Finite 0
      else
        (let r = of_int (round_half_even (x / ulp x)) * ulp x in
         if max_double < \<bar>r\<bar> then (if 0 < x then PInf else NInf) else Finite r))"

text \<open>
  The operations on doubles: the exact result, rounded, on finite operands; the special
  values as above. \<open>float(n)\<close> of an integer \<open>n\<close> is \<open>round_double (of_int n)\<close>.
\<close>

definition dadd :: "float \<Rightarrow> float \<Rightarrow> float" where
  "dadd a b = (case (a, b) of (Finite x, Finite y) \<Rightarrow> round_double (x + y) | _ \<Rightarrow> fadd a b)"

definition dsub :: "float \<Rightarrow> float \<Rightarrow> float" where
  "dsub a b = dadd a (fneg b)"

definition dmul :: "float \<Rightarrow> float \<Rightarrow> float" where
  "dmul a b = (case (a, b) of (Finite x, Finite y) \<Rightarrow> round_double (x * y) | _ \<Rightarrow> fmul a b)"

definition ddiv :: "float \<Rightarrow> float \<Rightarrow> float" where
  "ddiv a b =
     (case (a, b) of
        (Finite x, Finite y) \<Rightarrow> if y \<noteq> 0 then round_double (x / y) else fdiv a b
      | _ \<Rightarrow> fdiv a b)"

subsection \<open>Dictionaries and strings\<close>

text \<open>
  A dict is an association list with distinct keys, in the order the dict iterates;
  \<open>viewitems\<close> is the list itself and a comprehension over it maps the list.
\<close>

type_synonym 'v dict = "(string \<times> 'v) list"

definition dict_values :: "'v dict \<Rightarrow> 'v list" where
  "dict_values d = map snd d"

text \<open>\<open>sep.join(xs)\<close>\<close>

fun join :: "string \<Rightarrow> string list \<Rightarrow> string" where
  "join sep [] = []"
| "join sep [x] = x"
| "join sep (x # y # ys) = x @ sep @ join sep (y # ys)"

text \<open>\<open>str(n)\<close> of an integer: its decimal digits.\<close>

fun digits10 :: "nat \<Rightarrow> string" where
  "digits10 n =
     (if n < 10 then [char_of (48 + n)]
      else digits10 (n div 10) @ [char_of (48 + n mod 10)])"

declare digits10.simps [simp del]

definition str_int :: "int \<Rightarrow> string" where
  "str_int i = (if i < 0 then CHR ''-'' # digits10 (nat (- i)) else digits10 (nat i))"

subsection \<open>Orders, goal positions and the strategy's state\<close>

datatype order_action = BUY | SELL

text \<open>
  Modelled from the spec: the classes \<open>Order\<close> and \<open>FixedPriceTypeOrder\<close> of
  \<open>jaqs.data.basic.order\<close> are defined outside this module. An order has a symbol, an
  action, a price, a size, a trade date and time, an entrust identifier and a task
  identifier; \<open>new_order\<close> fills the first six and leaves the identifiers empty.
  \<open>price_target\<close> is the attribute \<open>goal_portfolio\<close> sets on a fixed-price order.
\<close>

record order =
  symbol :: string
  entrust_action :: order_action
  entrust_price :: float
  entrust_size :: int
  entrust_date :: int
  entrust_time :: int
  task_id :: string
  entrust_no :: string
  price_target :: string

definition new_order ::
  "string \<Rightarrow> order_action \<Rightarrow> float \<Rightarrow> int \<Rightarrow> int \<Rightarrow> int \<Rightarrow> order" where
  "new_order sec action price sz date time =
     \<lparr>symbol = sec, entrust_action = action, entrust_price = price, entrust_size = sz,
      entrust_date = date, entrust_time = time, task_id = [], entrust_no = [],
      price_target = []\<rparr>"

text \<open>\<open>GoalPosition\<close>: a symbol and the number of shares wanted.\<close>

record goal_position =
  goal_symbol :: string
  goal_size :: int

text \<open>
  The gateway is an external collaborator. Each call is logged in the state; the reply of
  the gateway may depend on the calls it has received so far.
\<close>

datatype gw_call = Place order | Cancel string

record gateway =
  gw_place_order :: "gw_call list \<Rightarrow> order \<Rightarrow> string"
  gw_cancel_order :: "gw_call list \<Rightarrow> string \<Rightarrow> string"

text \<open>
  The state of a strategy: the context (\<open>ctx.trade_date\<close>, \<open>ctx.universe\<close>), the
  attributes of \<open>Strategy\<close> and \<open>AlphaStrategy\<close> the operations below read or write,
  and the log of gateway calls.

  Modelled from the spec: \<open>SequenceGenerator\<close> (\<open>jaqs.util.sequence\<close>) and
  \<open>PortfolioManager\<close> (\<open>jaqs.trade.gateway\<close>) are defined outside this module. The
  sequence generator keeps one counter per key, starting at 1. The portfolio manager
  registers orders (\<open>add_order\<close>), knows the set \<open>holding_securities\<close> and answers
  \<open>get_position(symbol, date)\<close> with a position or with None; \<open>positions\<close> gives the
  \<open>curr_size\<close> of that position at the current trade date.

  A method that changes the state returns the new state with its result. Every exception
  modelled below is raised before the method has changed any attribute or called the
  gateway, so an error result carries no state: the state is the one before the call.
\<close>

record strategy =
  trade_date :: int
  universe :: "string list"
  seq_gen :: "string \<Rightarrow> nat"
  task_id_map :: "string \<rightharpoonup> string list"
  pm_orders :: "order list"
  holding_securities :: "string set"
  positions :: "string \<rightharpoonup> int"
  gw_calls :: "gw_call list"
  weights :: "float dict option"

subsection \<open>\<open>AlphaStrategy.generate_weights_order\<close>\<close>

text \<open>
  One iteration of the loop over \<open>weights_dic.viewitems()\<close>. \<open>sec in suspensions\<close> raises
  a TypeError when \<open>suspensions\<close> is None (the default of the parameter), \<open>prices[sec]\<close> a
  KeyError when the symbol has no price. The variable \<open>shares\<close> counts lots of 100
  shares, and it is what the goal position receives.

  The arithmetic is that of doubles, each operation rounded; the literal \<open>1e-8\<close> is the
  double nearest to \<open>1/10^8\<close>. The unused local \<open>shares_left\<close> is left out. A price of 0
  makes \<open>shares_raw\<close> an infinity or NaN, and \<open>int\<close> then raises; with plain Python floats
  in place of numpy floats the division itself raises (a ZeroDivisionError) at the same
  place.
\<close>

definition gwo_body ::
  "strategy \<Rightarrow> float \<Rightarrow> (string \<rightharpoonup> float) \<Rightarrow> string list option \<Rightarrow> string \<times> float \<Rightarrow>
   float \<times> goal_position list \<Rightarrow> error + (float \<times> goal_position list)" where
  "gwo_body st turnover prices suspensions item acc =
     (case item of (sec, w) \<Rightarrow> case acc of (cash_used, goals) \<Rightarrow>
      (case suspensions of
         None \<Rightarrow> Inl TypeError
       | Some susp \<Rightarrow>
           if sec \<in> set susp then
             Inr (cash_used,
                  goals @ [\<lparr>goal_symbol = sec,
                            goal_size = (case positions st sec of Some c \<Rightarrow> c | None \<Rightarrow> 0)\<rparr>])
           else if fless (fabs w) (round_double (1 / 10 ^ 8)) then
             Inr (cash_used, goals @ [\<lparr>goal_symbol = sec, goal_size = 0\<rparr>])
           else
             (case prices sec of
                None \<Rightarrow> Inl KeyError
              | Some price \<Rightarrow>
                  (let shares_raw = ddiv (dmul w turnover) price in
                   case py_int (py_round (ddiv shares_raw (Finite 100))) of
                     Inl e \<Rightarrow> Inl e
                   | Inr shares \<Rightarrow>
                       Inr (dadd cash_used
                              (dmul (dmul (round_double (of_int shares)) price) (Finite 100)),
                            goals @ [\<lparr>goal_symbol = sec, goal_size = shares\<rparr>])))))"

fun gwo_loop ::
  "strategy \<Rightarrow> float \<Rightarrow> (string \<rightharpoonup> float) \<Rightarrow> string list option \<Rightarrow> float dict \<Rightarrow>
   float \<times> goal_position list \<Rightarrow> error + (float \<times> goal_position list)" where
  "gwo_loop st turnover prices suspensions [] acc = Inr acc"
| "gwo_loop st turnover prices suspensions (item # items) acc =
     (case gwo_body st turnover prices suspensions item acc of
        Inl e \<Rightarrow> Inl e
      | Inr acc' \<Rightarrow> gwo_loop st turnover prices suspensions items acc')"

text \<open>
  The test \<open>algo == 'close' or 'vwap'\<close> is true for every \<open>algo\<close>: its second operand is
  a non-empty string.
\<close>

definition generate_weights_order ::
  "strategy \<Rightarrow> float dict \<Rightarrow> float \<Rightarrow> (string \<rightharpoonup> float) \<Rightarrow> string \<Rightarrow> string list option \<Rightarrow>
   error + (goal_position list \<times> float)" where
  "generate_weights_order st weights_dic turnover prices algo suspensions =
     (if algo \<notin> set [''close'', ''vwap''] then Inl NotImplementedError
      else
        (case (if algo = ''close'' \<or> ''vwap'' \<noteq> []
               then gwo_loop st turnover prices suspensions weights_dic (Finite 0, [])
               else Inr (Finite 0, [])) of
           Inl e \<Rightarrow> Inl e
         | Inr (cash_used, goals) \<Rightarrow> Inr (goals, dsub turnover cash_used)))"

subsection \<open>Identifiers\<close>

text \<open>
  Modelled from the spec: \<open>SequenceGenerator.get_next(key)\<close> increments the counter of
  the key and returns it, so the first number of a key is 1.
\<close>

definition get_next :: "(string \<Rightarrow> nat) \<Rightarrow> string \<Rightarrow> nat \<times> (string \<Rightarrow> nat)" where
  "get_next sg key = (let n = sg key + 1 in (n, sg(key := n)))"

text \<open>
  \<open>Strategy._get_next_num\<close>: \<open>str(np.int64(trade_date) * 10000 + seq)\<close>. The trade
  date is a date YYYYMMDD, far from the range where a 64-bit product wraps, so the
  arithmetic is that of the integers.
\<close>

definition get_next_num :: "strategy \<Rightarrow> string \<Rightarrow> string \<times> strategy" where
  "get_next_num st key =
     (case get_next (seq_gen st) key of
        (n, sg) \<Rightarrow> (str_int (trade_date st * 10000 + int n), st\<lparr>seq_gen := sg\<rparr>))"

text \<open>
  \<open>task_id_map\<close> is a \<open>defaultdict(list)\<close>: \<open>task_id_map[k].append(v)\<close> starts from the
  empty list when the key is absent, while \<open>task_id_map.get(k, None)\<close> creates nothing.
\<close>

definition task_append :: "(string \<rightharpoonup> string list) \<Rightarrow> string \<Rightarrow> string \<Rightarrow> (string \<rightharpoonup> string list)" where
  "task_append m k v = m(k \<mapsto> (case m k of None \<Rightarrow> [] | Some l \<Rightarrow> l) @ [v])"

text \<open>Modelled from the spec: \<open>PortfolioManager.add_order\<close> registers the order.\<close>

definition add_order :: "strategy \<Rightarrow> order \<Rightarrow> strategy" where
  "add_order st ord = st\<lparr>pm_orders := pm_orders st @ [ord]\<rparr>"

text \<open>A call of \<open>ctx.gateway.place_order\<close> or \<open>ctx.gateway.cancel_order\<close>: the reply and the log.\<close>

definition gateway_place :: "gateway \<Rightarrow> strategy \<Rightarrow> order \<Rightarrow> string \<times> strategy" where
  "gateway_place gw st ord =
     (gw_place_order gw (gw_calls st) ord, st\<lparr>gw_calls := gw_calls st @ [Place ord]\<rparr>)"

definition gateway_cancel :: "gateway \<Rightarrow> strategy \<Rightarrow> string \<Rightarrow> string \<times> strategy" where
  "gateway_cancel gw st eno =
     (gw_cancel_order gw (gw_calls st) eno, st\<lparr>gw_calls := gw_calls st @ [Cancel eno]\<rparr>)"

subsection \<open>\<open>Strategy.place_order\<close>\<close>

definition place_order ::
  "gateway \<Rightarrow> strategy \<Rightarrow> string \<Rightarrow> order_action \<Rightarrow> float \<Rightarrow> int \<Rightarrow> string \<Rightarrow>
   error + ((string \<times> string) \<times> strategy)" where
  "place_order gw st sec action price sz algo =
     (if algo \<noteq> [] then Inl NotImplementedError
      else
        (let ord = new_order sec action price sz (trade_date st) 0 in
         case get_next_num st ''task_id'' of (tid, st1) \<Rightarrow>
         case get_next_num st1 ''entrust_no'' of (eno, st2) \<Rightarrow>
           (let ord2 = ord\<lparr>task_id := tid, entrust_no := eno\<rparr>;
                st3 = st2\<lparr>task_id_map := task_append (task_id_map st2) tid eno\<rparr>;
                st4 = add_order st3 ord2
            in case gateway_place gw st4 ord2 of (err_msg, st5) \<Rightarrow>
                 if err_msg \<noteq> [] then Inr ((''0'', err_msg), st5)
                 else Inr ((tid, err_msg), st5))))"

subsection \<open>\<open>Strategy.cancel_order\<close>\<close>

fun cancel_loop :: "gateway \<Rightarrow> string list \<Rightarrow> strategy \<times> string list \<Rightarrow> strategy \<times> string list" where
  "cancel_loop gw [] acc = acc"
| "cancel_loop gw (eno # enos) (st, err_msgs) =
     (case gateway_cancel gw st eno of
        (err_msg, st') \<Rightarrow> cancel_loop gw enos (st', err_msgs @ [err_msg]))"

definition cancel_order :: "gateway \<Rightarrow> strategy \<Rightarrow> string \<Rightarrow> (bool \<times> string) \<times> strategy" where
  "cancel_order gw st tid =
     (case task_id_map st tid of
        None \<Rightarrow> ((False, ''No task id '' @ tid), st)
      | Some entrust_no_list \<Rightarrow>
          (case cancel_loop gw entrust_no_list (st, []) of
             (st', err_msgs) \<Rightarrow>
               if \<exists>s \<in> set err_msgs. s \<noteq> [] then ((False, join '','' err_msgs), st')
               else ((True, []), st')))"

subsection \<open>\<open>Strategy.place_batch_order\<close>\<close>

fun pbo_loop ::
  "gateway \<Rightarrow> string \<Rightarrow> order list \<Rightarrow> strategy \<times> string list \<Rightarrow> strategy \<times> string list" where
  "pbo_loop gw tid [] acc = acc"
| "pbo_loop gw tid (ord # ords) (st, err_msgs) =
     (case get_next_num st ''entrust_no'' of (eno, st1) \<Rightarrow>
        (let ord' = ord\<lparr>task_id := tid, entrust_no := eno\<rparr>;
             st2 = add_order st1 ord'
         in case gateway_place gw st2 ord' of (err_msg, st3) \<Rightarrow>
              pbo_loop gw tid ords
                (st3\<lparr>task_id_map := task_append (task_id_map st3) tid eno\<rparr>,
                 err_msgs @ [err_msg])))"

definition place_batch_order ::
  "gateway \<Rightarrow> strategy \<Rightarrow> order list \<Rightarrow> (string \<times> string) \<times> strategy" where
  "place_batch_order gw st orders =
     (case get_next_num st ''task_id'' of (tid, st1) \<Rightarrow>
      case pbo_loop gw tid orders (st1, []) of (st2, err_msgs) \<Rightarrow>
        ((tid, join '','' err_msgs), st2))"

subsection \<open>\<open>Strategy.goal_portfolio\<close>\<close>

text \<open>
  The loop that builds the orders. \<open>get_position(...).curr_size\<close> raises an
  AttributeError when the portfolio manager holds the symbol but has no position for it.
\<close>

fun goal_orders :: "strategy \<Rightarrow> goal_position list \<Rightarrow> order list \<Rightarrow> error + order list" where
  "goal_orders st [] orders = Inr orders"
| "goal_orders st (goal # goals) orders =
     (case (if goal_symbol goal \<in> holding_securities st
            then (case positions st (goal_symbol goal) of
                    None \<Rightarrow> Inl AttributeError | Some c \<Rightarrow> Inr c)
            else Inr 0) of
        Inl e \<Rightarrow> Inl e
      | Inr curr_size \<Rightarrow>
          (let diff_size = goal_size goal - curr_size in
           if diff_size \<noteq> 0 then
             (let action = (if diff_size > 0 then BUY else SELL);
                  ord = new_order (goal_symbol goal) action (Finite 0) \<bar>diff_size\<bar>
                          (trade_date st) 0
              in goal_orders st goals (orders @ [ord\<lparr>price_target := ''vwap''\<rparr>]))
           else goal_orders st goals orders))"

text \<open>The method returns nothing: the result of the batch submission is dropped.\<close>

definition goal_portfolio :: "gateway \<Rightarrow> strategy \<Rightarrow> goal_position list \<Rightarrow> error + strategy" where
  "goal_portfolio gw st goals =
     (if length goals \<noteq> length (universe st) then Inl AssertionError
      else
        (case goal_orders st goals [] of
           Inl e \<Rightarrow> Inl e
         | Inr orders \<Rightarrow> Inr (snd (place_batch_order gw st orders))))"

subsection \<open>\<open>AlphaStrategy.portfolio_construction\<close>\<close>


subsection \<open>\<open>AlphaStrategy.optimize_mc\<close>\<close>

text \<open>
  \<open>rand i j\<close> is the entry \<open>[i, j]\<close> of the matrix \<open>np.random.rand(n_exp, n_var)\<close>. Each
  row is divided by its sum, and row \<open>i\<close> becomes the dict
  \<open>{universe[j]: weights_mat[i, j] for j in range(n_var)}\<close>, where a symbol that occurs
  twice in the universe keeps its last value.
\<close>

definition n_exp :: nat where
  "n_exp = 5"

definition weights_mat :: "strategy \<Rightarrow> (nat \<Rightarrow> nat \<Rightarrow> float) \<Rightarrow> nat \<Rightarrow> nat \<Rightarrow> float" where
  "weights_mat st rand i j =
     fdiv (rand i j) (np_sum (map (rand i) [0 ..< length (universe st)]))"

definition mc_candidate :: "strategy \<Rightarrow> (nat \<Rightarrow> nat \<Rightarrow> float) \<Rightarrow> nat \<Rightarrow> float dict" where
  "mc_candidate st rand i =
     fold (\<lambda>j d. AList.update (universe st ! j) (weights_mat st rand i j) d)
       [0 ..< length (universe st)] []"

definition mc_candidates :: "strategy \<Rightarrow> (nat \<Rightarrow> nat \<Rightarrow> float) \<Rightarrow> float dict list" where
  "mc_candidates st rand = map (mc_candidate st rand) [0 ..< n_exp]"

fun mc_loop ::
  "(float dict \<Rightarrow> float) \<Rightarrow> float dict list \<Rightarrow> float \<times> float dict option \<Rightarrow>
   float \<times> float dict option" where
  "mc_loop util_func [] acc = acc"
| "mc_loop util_func (ws # rest) (min_f, min_weights) =
     (let f = fneg (util_func ws) in
      if fless f min_f then mc_loop util_func rest (f, Some ws)
      else mc_loop util_func rest (min_f, min_weights))"

text \<open>\<open>fmt\<close> renders a float in the format \<open>{:.2e}\<close>.\<close>

definition optimize_mc ::
  "strategy \<Rightarrow> (nat \<Rightarrow> nat \<Rightarrow> float) \<Rightarrow> (float \<Rightarrow> string) \<Rightarrow> (float dict \<Rightarrow> float) \<Rightarrow>
   float dict option \<times> string" where
  "optimize_mc st rand fmt util_func =
     (case mc_loop util_func (mc_candidates st rand) (Finite (10 ^ 30), None) of
        (min_f, min_weights) \<Rightarrow>
          (case min_weights of
             None \<Rightarrow> (None, ''No weights can make f > '' @ fmt min_f @ '' found in this search'')
           | Some ws \<Rightarrow> (Some ws, [])))"

subsection \<open>\<open>AlphaStrategy.re_weight_suspension\<close>\<close>

text \<open>
  The comprehension tests \<open>w not in suspensions\<close>, with \<open>w\<close> the weight of the item and
  \<open>suspensions\<close> a list of symbols. Python compares the float with each string of the
  list, and a float never equals a string.
\<close>

datatype py_value = PyStr string | PyFloat float

definition py_in :: "py_value \<Rightarrow> py_value list \<Rightarrow> bool" where
  "py_in v xs = (v \<in> set xs)"

definition re_weight_suspension :: "strategy \<Rightarrow> string list option \<Rightarrow> error + strategy" where
  "re_weight_suspension st suspensions =
     (case suspensions of
        None \<Rightarrow> Inr st
      | Some susp \<Rightarrow>
          if susp = [] then Inr st
          else if length susp = length (universe st) then Inl ValueError
          else
            (case weights st of
               None \<Rightarrow> Inl AttributeError
             | Some ws \<Rightarrow>
                 (let w1 = map (\<lambda>(sec, w).
                             (sec, if \<not> py_in (PyFloat w) (map PyStr susp) then w else Finite 0)) ws;
                      weights_sum = np_sum (map fabs (dict_values w1));
                      w2 = (if fless (Finite 0) weights_sum
                            then map (\<lambda>(sec, w). (sec, fdiv w weights_sum)) w1 else w1)
                  in Inr (st\<lparr>weights := Some w2\<rparr>))))"

subsection \<open>Example inputs\<close>

definition demo_state :: strategy where
  "demo_state =
     \<lparr>trade_date = 20170103, universe = [''A'', ''B''], seq_gen = (\<lambda>k. 0),
      task_id_map = Map.empty, pm_orders = [], holding_securities = {},
      positions = Map.empty, gw_calls = [], weights = None\<rparr>"

text \<open>A gateway that accepts every request, and one that rejects every request.\<close>

definition accepting_gateway :: gateway where
  "accepting_gateway = \<lparr>gw_place_order = (\<lambda>log ord. []), gw_cancel_order = (\<lambda>log eno. [])\<rparr>"

definition rejecting_gateway :: gateway where
  "rejecting_gateway =
     \<lparr>gw_place_order = (\<lambda>log ord. ''rejected''), gw_cancel_order = (\<lambda>log eno. ''rejected'')\<rparr>"

definition demo_holding :: strategy where
  "demo_holding = demo_state\<lparr>holding_securities := {''A''}, positions := [''A'' \<mapsto> 300]\<rparr>"

definition demo_weights :: "float dict" where
  "demo_weights = [(''A'', Finite (1 / 2)), (''B'', Finite (1 / 2))]"

definition demo_prices :: "string \<rightharpoonup> float" where
  "demo_prices = [''A'' \<mapsto> Finite 10, ''B'' \<mapsto> Finite 20]"


definition demo_weighted :: strategy where
  "demo_weighted = demo_state\<lparr>weights := Some demo_weights\<rparr>"

text \<open>
  A draw of the random matrix for a universe of two symbols, a utility that is the weight
  of the symbol \<open>A\<close>, and a rendering of the sentinel \<open>1e30\<close>.
\<close>

definition demo_rand :: "nat \<Rightarrow> nat \<Rightarrow> float" where
  "demo_rand i j = Finite (if j = 0 then 1 / (1 + real i) else 1 - 1 / (1 + real i))"

definition weight_of_A :: "float dict \<Rightarrow> float" where
  "weight_of_A ws = (case map_of ws ''A'' of Some v \<Rightarrow> v | None \<Rightarrow> NaN)"

definition demo_fmt :: "float \<Rightarrow> string" where
  "demo_fmt f = ''1.00e+30''"

subsection \<open>Reference definitions for \<open>goal_portfolio\<close>\<close>

text \<open>
  The size currently held of a symbol, and the order that moves the holding of a symbol to
  its goal: buy when the goal is above the holding, sell when it is below, for the
  absolute difference.
\<close>

definition held_size :: "strategy \<Rightarrow> string \<Rightarrow> int" where
  "held_size st sec =
     (if sec \<in> holding_securities st
      then (case positions st sec of Some c \<Rightarrow> c | None \<Rightarrow> 0) else 0)"

definition diff_order :: "strategy \<Rightarrow> goal_position \<Rightarrow> order" where
  "diff_order st goal =
     (new_order (goal_symbol goal)
        (if goal_size goal - held_size st (goal_symbol goal) > 0 then BUY else SELL)
        (Finite 0) \<bar>goal_size goal - held_size st (goal_symbol goal)\<bar> (trade_date st) 0)
     \<lparr>price_target := ''vwap''\<rparr>"

text \<open>
  The orders of a batch as they reach the gateway: each carries the task id of the batch
  and the next entrust number, counted from the value \<open>n\<close> of the sequence
  \<open>entrust_no\<close>.
\<close>

fun placed :: "int \<Rightarrow> nat \<Rightarrow> string \<Rightarrow> order list \<Rightarrow> order list" where
  "placed date n tid [] = []"
| "placed date n tid (ord # ords) =
     ord\<lparr>task_id := tid, entrust_no := str_int (date * 10000 + int (n + 1))\<rparr>
     # placed date (n + 1) tid ords"

subsection \<open>Reference definitions for \<open>generate_weights_order\<close>\<close>


definition item_goal_size ::
  "strategy \<Rightarrow> float \<Rightarrow> (string \<rightharpoonup> float) \<Rightarrow> string list \<Rightarrow> string \<times> float \<Rightarrow> error + int" where
  "item_goal_size st turnover prices susp item =
     (case item of (sec, w) \<Rightarrow>
        if sec \<in> set susp then Inr (case positions st sec of Some c \<Rightarrow> c | None \<Rightarrow> 0)
        else if fless (fabs w) (round_double (1 / 10 ^ 8)) then Inr 0
        else (case prices sec of
                None \<Rightarrow> Inl KeyError
              | Some price \<Rightarrow>
                  py_int (py_round (ddiv (ddiv (dmul w turnover) price) (Finite 100)))))"

subsection \<open>Reference definitions for \<open>portfolio_construction\<close>\<close>



definition abs_sum :: "float dict \<Rightarrow> float" where
  "abs_sum d = np_sum (map fabs (dict_values d))"



section \<open>Properties\<close>

subsection \<open>Weights to goal positions\<close>

text \<open>
  C7. Called with an execution style other than \<open>close\<close> and \<open>vwap\<close>,
  \<open>generate_weights_order\<close> raises NotImplementedError; it returns no goal position and
  no cash amount.
\<close>

theorem generate_weights_order_unknown_algo:
  assumes "algo \<noteq> ''close''" and "algo \<noteq> ''vwap''"
  shows "generate_weights_order st weights_dic turnover prices algo suspensions
         = Inl NotImplementedError"
  using assms by (simp add: generate_weights_order_def)

theorem generate_weights_order_unknown_algo_witness:
  "''open'' \<noteq> ''close'' \<and> ''open'' \<noteq> ''vwap'' \<and>
   generate_weights_order demo_state [(''A'', Finite 1)] (Finite 1000) Map.empty ''open'' None
   = Inl NotImplementedError"
  using generate_weights_order_unknown_algo [of "''open''" demo_state "[(''A'', Finite 1)]"
      "Finite 1000" Map.empty None]
  by simp

subsection \<open>Order tracking\<close>

text \<open>
  C9. A task id that has no entry in the task map makes \<open>cancel_order\<close> return False with
  the message \<open>No task id ...\<close>; the state, and with it the log of gateway calls, is
  unchanged: no cancel request reaches the gateway.
\<close>

theorem cancel_order_unknown_task:
  assumes "task_id_map st tid = None"
  shows "cancel_order gw st tid = ((False, ''No task id '' @ tid), st)"
  using assms by (simp add: cancel_order_def)

theorem cancel_order_unknown_task_witness:
  "task_id_map demo_state ''201701030001'' = None \<and>
   cancel_order rejecting_gateway demo_state ''201701030001''
   = ((False, ''No task id 201701030001''), demo_state)"
  using cancel_order_unknown_task [of demo_state "''201701030001''" rejecting_gateway]
  by (simp add: demo_state_def)

text \<open>
  C3. The specification says the string \<open>place_batch_order\<close> returns is empty exactly when every
  submission succeeded. The method joins the replies with a comma whatever they are, so
  two accepted orders give the string \<open>,\<close>: a non-empty string with no failure behind it.
  \<open>cancel_order\<close> returns the empty string when no reply is an error.
\<close>

theorem place_batch_order_two_accepted:
  "snd (fst (place_batch_order accepting_gateway demo_state
      [new_order ''A'' BUY (Finite 0) 100 20170103 0,
       new_order ''B'' SELL (Finite 0) 200 20170103 0])) = '',''"
  by (simp add: place_batch_order_def get_next_num_def get_next_def
      accepting_gateway_def gateway_place_def add_order_def Let_def split: prod.splits)

text \<open>With no algorithm named, \<open>place_order\<close> always returns.\<close>

lemma place_order_total:
  "\<exists>r. place_order gw st sec action price sz [] = Inr r"
  by (auto simp: place_order_def Let_def split: prod.splits)

text \<open>
  C6. When the gateway answers a single order with a non-empty error, \<open>place_order\<close>
  returns the task id \<open>0\<close> and that error. The order it built carries the task id it
  minted; it is registered with the portfolio manager, its entrust id is recorded under
  the minted task id in the task map, and it has been sent to the gateway.
\<close>

theorem place_order_gateway_error:
  assumes run: "place_order gw st sec action price sz [] = Inr ((tid, err_msg), st')"
    and err: "err_msg \<noteq> []"
  shows "tid = ''0'' \<and>
         (\<exists>ord \<in> set (pm_orders st').
            task_id ord = fst (get_next_num st ''task_id'') \<and>
            symbol ord = sec \<and> entrust_action ord = action \<and> entrust_size ord = sz \<and>
            (\<exists>enos. task_id_map st' (task_id ord) = Some enos \<and> entrust_no ord \<in> set enos) \<and>
            err_msg = gw_place_order gw (gw_calls st) ord \<and>
            gw_calls st' = gw_calls st @ [Place ord])"
  using run err
  by (auto simp: place_order_def get_next_num_def get_next_def task_append_def add_order_def
      gateway_place_def new_order_def Let_def split: prod.splits if_splits)

theorem place_order_gateway_error_witness:
  "\<exists>st'. place_order rejecting_gateway demo_state ''A'' BUY (Finite 10) 100 []
         = Inr ((''0'', ''rejected''), st') \<and>
     (\<exists>ord \<in> set (pm_orders st').
            task_id ord = fst (get_next_num demo_state ''task_id'') \<and>
            (\<exists>enos. task_id_map st' (task_id ord) = Some enos \<and> entrust_no ord \<in> set enos))"
proof -
  obtain st' where run: "place_order rejecting_gateway demo_state ''A'' BUY (Finite 10) 100 []
         = Inr ((''0'', ''rejected''), st')"
    by (cases "get_next_num demo_state ''task_id''",
        cases "get_next_num (snd (get_next_num demo_state ''task_id'')) ''entrust_no''")
      (simp add: place_order_def rejecting_gateway_def gateway_place_def Let_def)
  have ne: "''rejected'' \<noteq> []" by simp
  from place_order_gateway_error [OF run ne] run show ?thesis by blast
qed

subsection \<open>Goal positions to orders\<close>

text \<open>The loop of \<open>goal_portfolio\<close> keeps the goals that differ from the holding.\<close>

lemma goal_orders_filter:
  assumes "\<forall>g \<in> set goals. goal_symbol g \<in> holding_securities st \<longrightarrow>
             positions st (goal_symbol g) \<noteq> None"
  shows "goal_orders st goals orders =
         Inr (orders @ map (diff_order st)
                (filter (\<lambda>g. goal_size g \<noteq> held_size st (goal_symbol g)) goals))"
  using assms
proof (induction goals arbitrary: orders)
  case Nil
  show ?case by simp
next
  case (Cons g goals)
  then show ?case
    by (auto simp: held_size_def diff_order_def Let_def)
qed

text \<open>A held symbol without a position stops the loop with an AttributeError.\<close>

lemma goal_orders_missing_position:
  assumes "\<exists>g \<in> set goals. goal_symbol g \<in> holding_securities st \<and>
             positions st (goal_symbol g) = None"
  shows "goal_orders st goals orders = Inl AttributeError"
  using assms
proof (induction goals arbitrary: orders)
  case Nil
  then show ?case by simp
next
  case (Cons g goals)
  show ?case
  proof (cases "goal_symbol g \<in> holding_securities st \<and> positions st (goal_symbol g) = None")
    case True
    then show ?thesis by simp
  next
    case False
    with Cons.prems have "\<exists>g \<in> set goals. goal_symbol g \<in> holding_securities st \<and>
             positions st (goal_symbol g) = None"
      by auto
    from Cons.IH [OF this] show ?thesis
      by (auto simp: Let_def split: option.splits)
  qed
qed

text \<open>
  What a batch submission does to the state: every order of the batch, stamped with the
  task id and its entrust number, is sent to the gateway and registered with the portfolio
  manager, in the order of the batch, and the entrust numbers are recorded under the task
  id.
\<close>

lemma length_placed: "length (placed date n tid ords) = length ords"
  by (induction ords arbitrary: n) auto

lemma placed_task_id: "ord \<in> set (placed date n tid ords) \<Longrightarrow> task_id ord = tid"
  by (induction ords arbitrary: n) auto

lemma pbo_loop_effect:
  assumes "pbo_loop gw tid ords (st, err_msgs) = (st', err_msgs')"
  shows "gw_calls st' = gw_calls st @
           map Place (placed (trade_date st) (seq_gen st ''entrust_no'') tid ords) \<and>
         pm_orders st' = pm_orders st @
           placed (trade_date st) (seq_gen st ''entrust_no'') tid ords \<and>
         (ords \<noteq> [] \<longrightarrow> task_id_map st' tid =
            Some ((case task_id_map st tid of None \<Rightarrow> [] | Some l \<Rightarrow> l) @
                  map entrust_no (placed (trade_date st) (seq_gen st ''entrust_no'') tid ords))) \<and>
         (ords = [] \<longrightarrow> task_id_map st' = task_id_map st) \<and>
         trade_date st' = trade_date st"
  using assms
proof (induction ords arbitrary: st err_msgs)
  case Nil
  then show ?case by simp
next
  case (Cons ord ords)
  let ?eno = "str_int (trade_date st * 10000 + int (seq_gen st ''entrust_no'' + 1))"
  let ?ord = "ord\<lparr>task_id := tid, entrust_no := ?eno\<rparr>"
  let ?st = "st\<lparr>seq_gen := (seq_gen st)(''entrust_no'' := seq_gen st ''entrust_no'' + 1),
                 pm_orders := pm_orders st @ [?ord],
                 gw_calls := gw_calls st @ [Place ?ord],
                 task_id_map := task_append (task_id_map st) tid ?eno\<rparr>"
  from Cons.prems have run:
    "pbo_loop gw tid ords (?st, err_msgs @ [gw_place_order gw (gw_calls st) ?ord])
     = (st', err_msgs')"
    by (simp add: get_next_num_def get_next_def add_order_def gateway_place_def Let_def)
  from Cons.IH [OF run] show ?case
    by (cases "ords = []") (auto simp: task_append_def)
qed

lemma place_batch_order_effect:
  assumes "place_batch_order gw st orders = ((tid, err_msg), st')"
  shows "tid = fst (get_next_num st ''task_id'') \<and>
         gw_calls st' = gw_calls st @
           map Place (placed (trade_date st) (seq_gen st ''entrust_no'') tid orders) \<and>
         pm_orders st' = pm_orders st @
           placed (trade_date st) (seq_gen st ''entrust_no'') tid orders \<and>
         (orders \<noteq> [] \<longrightarrow> task_id_map st' tid =
            Some ((case task_id_map st tid of None \<Rightarrow> [] | Some l \<Rightarrow> l) @
                  map entrust_no
                    (placed (trade_date st) (seq_gen st ''entrust_no'') tid orders)))"
proof -
  let ?st1 = "snd (get_next_num st ''task_id'')"
  obtain st2 errs where loop: "pbo_loop gw (fst (get_next_num st ''task_id'')) orders (?st1, [])
      = (st2, errs)"
    by (cases "pbo_loop gw (fst (get_next_num st ''task_id'')) orders (?st1, [])") auto
  with assms have res: "tid = fst (get_next_num st ''task_id'')" "st' = st2"
    by (auto simp: place_batch_order_def split: prod.splits)
  have st1: "gw_calls ?st1 = gw_calls st" "pm_orders ?st1 = pm_orders st"
    "task_id_map ?st1 = task_id_map st" "trade_date ?st1 = trade_date st"
    "seq_gen ?st1 ''entrust_no'' = seq_gen st ''entrust_no''"
    by (simp_all add: get_next_num_def get_next_def Let_def)
  from pbo_loop_effect [OF loop] res st1 show ?thesis by simp
qed

text \<open>The stamping leaves symbol, action and size as they are.\<close>

lemma placed_summary:
  "map (\<lambda>ord. (symbol ord, entrust_action ord, entrust_size ord)) (placed date n tid ords)
   = map (\<lambda>ord. (symbol ord, entrust_action ord, entrust_size ord)) ords"
  by (induction ords arbitrary: n) auto

lemma diff_order_summary:
  "map (\<lambda>ord. (symbol ord, entrust_action ord, entrust_size ord)) (map (diff_order st) gs)
   = map (\<lambda>g. (goal_symbol g,
                if goal_size g > held_size st (goal_symbol g) then BUY else SELL,
                \<bar>goal_size g - held_size st (goal_symbol g)\<bar>)) gs"
  by (induction gs) (auto simp: diff_order_def new_order_def)

text \<open>
  C8. A goal list whose length is not the length of the universe makes
  \<open>goal_portfolio\<close> fail on its assertion, with no order submitted. When the lengths
  agree, the method either fails before any submission (a held symbol has no position) or
  makes one call of \<open>place_batch_order\<close>: the gateway receives, and the portfolio manager
  registers, exactly one order for each goal whose size differs from the size held, in the
  order of the goals, a buy for a positive difference and a sell for a negative one, each
  for the absolute difference; all of them carry the task id minted for the batch, under
  which their entrust numbers are recorded.
\<close>

theorem goal_portfolio_submits_differences:
  "(length goals \<noteq> length (universe st) \<longrightarrow>
      goal_portfolio gw st goals = Inl AssertionError) \<and>
   (length goals = length (universe st) \<and>
    (\<exists>g \<in> set goals. goal_symbol g \<in> holding_securities st \<and>
        positions st (goal_symbol g) = None) \<longrightarrow>
      goal_portfolio gw st goals = Inl AttributeError) \<and>
   (length goals = length (universe st) \<and>
    (\<forall>g \<in> set goals. goal_symbol g \<in> holding_securities st \<longrightarrow>
        positions st (goal_symbol g) \<noteq> None) \<longrightarrow>
      (\<exists>st' sent.
         goal_portfolio gw st goals = Inr st' \<and>
         st' = snd (place_batch_order gw st
                 (map (diff_order st)
                    (filter (\<lambda>g. goal_size g \<noteq> held_size st (goal_symbol g)) goals))) \<and>
         gw_calls st' = gw_calls st @ map Place sent \<and>
         pm_orders st' = pm_orders st @ sent \<and>
         (\<forall>ord \<in> set sent. task_id ord = fst (get_next_num st ''task_id'')) \<and>
         (sent \<noteq> [] \<longrightarrow>
            task_id_map st' (fst (get_next_num st ''task_id'')) =
            Some ((case task_id_map st (fst (get_next_num st ''task_id'')) of
                     None \<Rightarrow> [] | Some l \<Rightarrow> l) @ map entrust_no sent)) \<and>
         map (\<lambda>ord. (symbol ord, entrust_action ord, entrust_size ord)) sent =
         map (\<lambda>g. (goal_symbol g,
                    if goal_size g > held_size st (goal_symbol g) then BUY else SELL,
                    \<bar>goal_size g - held_size st (goal_symbol g)\<bar>))
           (filter (\<lambda>g. goal_size g \<noteq> held_size st (goal_symbol g)) goals)))"
proof (intro conjI impI)
  assume "length goals \<noteq> length (universe st)"
  then show "goal_portfolio gw st goals = Inl AssertionError"
    by (simp add: goal_portfolio_def)
next
  assume "length goals = length (universe st) \<and>
    (\<exists>g \<in> set goals. goal_symbol g \<in> holding_securities st \<and>
        positions st (goal_symbol g) = None)"
  then have "length goals = length (universe st)"
    and "goal_orders st goals [] = Inl AttributeError"
    by (simp_all add: goal_orders_missing_position)
  then show "goal_portfolio gw st goals = Inl AttributeError"
    by (simp add: goal_portfolio_def)
next
  let ?diffs = "filter (\<lambda>g. goal_size g \<noteq> held_size st (goal_symbol g)) goals"
  let ?orders = "map (diff_order st) ?diffs"
  let ?tid = "fst (get_next_num st ''task_id'')"
  let ?sent = "placed (trade_date st) (seq_gen st ''entrust_no'') ?tid ?orders"
  assume "length goals = length (universe st) \<and>
    (\<forall>g \<in> set goals. goal_symbol g \<in> holding_securities st \<longrightarrow>
        positions st (goal_symbol g) \<noteq> None)"
  then have len: "length goals = length (universe st)"
    and ok: "\<forall>g \<in> set goals. goal_symbol g \<in> holding_securities st \<longrightarrow>
        positions st (goal_symbol g) \<noteq> None"
    by simp_all
  obtain tid err_msg st' where batch0:
    "place_batch_order gw st ?orders = ((tid, err_msg), st')"
    by (metis prod.exhaust)
  have tid: "tid = ?tid"
    using place_batch_order_effect [OF batch0] by (rule conjunct1)
  have batch: "place_batch_order gw st ?orders = ((?tid, err_msg), st')"
    using batch0 unfolding tid .
  have orders: "goal_orders st goals [] = Inr ?orders"
    using goal_orders_filter [OF ok, of "[]"] by simp
  have run: "goal_portfolio gw st goals = Inr st'"
    unfolding goal_portfolio_def using len orders batch by simp
  have st': "st' = snd (place_batch_order gw st ?orders)"
    using batch by simp
  note eff = place_batch_order_effect [OF batch]
  have calls: "gw_calls st' = gw_calls st @ map Place ?sent"
    using eff by (rule conjunct1 [OF conjunct2])
  have pm: "pm_orders st' = pm_orders st @ ?sent"
    using eff by (rule conjunct1 [OF conjunct2 [OF conjunct2]])
  have map0: "?orders \<noteq> [] \<longrightarrow> task_id_map st' ?tid =
            Some ((case task_id_map st ?tid of None \<Rightarrow> [] | Some l \<Rightarrow> l) @ map entrust_no ?sent)"
    using eff by (rule conjunct2 [OF conjunct2 [OF conjunct2]])
  have "length ?sent = length ?orders" by (rule length_placed)
  then have ne: "?sent \<noteq> [] \<Longrightarrow> ?orders \<noteq> []" by auto
  have tmap: "?sent \<noteq> [] \<longrightarrow> task_id_map st' ?tid =
            Some ((case task_id_map st ?tid of None \<Rightarrow> [] | Some l \<Rightarrow> l) @ map entrust_no ?sent)"
    using map0 ne by blast
  have tids: "\<forall>ord \<in> set ?sent. task_id ord = ?tid"
    using placed_task_id by blast
  have contents: "map (\<lambda>ord. (symbol ord, entrust_action ord, entrust_size ord)) ?sent =
          map (\<lambda>g. (goal_symbol g,
                    if goal_size g > held_size st (goal_symbol g) then BUY else SELL,
                    \<bar>goal_size g - held_size st (goal_symbol g)\<bar>)) ?diffs"
    by (simp only: placed_summary diff_order_summary)
  show "\<exists>st' sent.
         goal_portfolio gw st goals = Inr st' \<and>
         st' = snd (place_batch_order gw st ?orders) \<and>
         gw_calls st' = gw_calls st @ map Place sent \<and>
         pm_orders st' = pm_orders st @ sent \<and>
         (\<forall>ord \<in> set sent. task_id ord = ?tid) \<and>
         (sent \<noteq> [] \<longrightarrow>
            task_id_map st' ?tid =
            Some ((case task_id_map st ?tid of None \<Rightarrow> [] | Some l \<Rightarrow> l) @ map entrust_no sent)) \<and>
         map (\<lambda>ord. (symbol ord, entrust_action ord, entrust_size ord)) sent =
         map (\<lambda>g. (goal_symbol g,
                    if goal_size g > held_size st (goal_symbol g) then BUY else SELL,
                    \<bar>goal_size g - held_size st (goal_symbol g)\<bar>)) ?diffs"
    using run st' calls pm tids tmap contents
    by (intro exI [of _ st'] exI [of _ ?sent] conjI)
qed

theorem goal_portfolio_submits_differences_witness:
  "goal_portfolio accepting_gateway demo_holding [\<lparr>goal_symbol = ''A'', goal_size = 100\<rparr>]
     = Inl AssertionError \<and>
   goal_portfolio accepting_gateway (demo_state\<lparr>holding_securities := {''A''}\<rparr>)
     [\<lparr>goal_symbol = ''A'', goal_size = 100\<rparr>, \<lparr>goal_symbol = ''B'', goal_size = 0\<rparr>]
     = Inl AttributeError \<and>
   (\<exists>st' sent.
      goal_portfolio accepting_gateway demo_holding
        [\<lparr>goal_symbol = ''A'', goal_size = 100\<rparr>, \<lparr>goal_symbol = ''B'', goal_size = 0\<rparr>]
      = Inr st' \<and>
      gw_calls st' = map Place sent \<and> pm_orders st' = sent \<and>
      map (\<lambda>ord. (symbol ord, entrust_action ord, entrust_size ord)) sent
      = [(''A'', SELL, 200)])"
proof -
  let ?g1 = "[\<lparr>goal_symbol = ''A'', goal_size = 100\<rparr>]"
  let ?g2 = "[\<lparr>goal_symbol = ''A'', goal_size = 100\<rparr>, \<lparr>goal_symbol = ''B'', goal_size = 0\<rparr>]"
  let ?bad = "demo_state\<lparr>holding_securities := {''A''}\<rparr>"
  have h1: "length ?g1 \<noteq> length (universe demo_holding)"
    by (simp add: demo_holding_def demo_state_def)
  have h2: "length ?g2 = length (universe ?bad) \<and>
    (\<exists>g \<in> set ?g2. goal_symbol g \<in> holding_securities ?bad \<and>
        positions ?bad (goal_symbol g) = None)"
    by (simp add: demo_state_def)
  have h3: "length ?g2 = length (universe demo_holding) \<and>
    (\<forall>g \<in> set ?g2. goal_symbol g \<in> holding_securities demo_holding \<longrightarrow>
        positions demo_holding (goal_symbol g) \<noteq> None)"
    by (simp add: demo_holding_def demo_state_def)
  have first: "goal_portfolio accepting_gateway demo_holding ?g1 = Inl AssertionError"
    using goal_portfolio_submits_differences [of ?g1 demo_holding accepting_gateway] h1
    by blast
  have second: "goal_portfolio accepting_gateway ?bad ?g2 = Inl AttributeError"
    using goal_portfolio_submits_differences [of ?g2 ?bad accepting_gateway] h2
    by blast
  from goal_portfolio_submits_differences [of ?g2 demo_holding accepting_gateway] h3
  obtain st' sent where
    run: "goal_portfolio accepting_gateway demo_holding ?g2 = Inr st'"
    and calls: "gw_calls st' = gw_calls demo_holding @ map Place sent"
    and pm: "pm_orders st' = pm_orders demo_holding @ sent"
    and contents: "map (\<lambda>ord. (symbol ord, entrust_action ord, entrust_size ord)) sent =
         map (\<lambda>g. (goal_symbol g,
                    if goal_size g > held_size demo_holding (goal_symbol g) then BUY else SELL,
                    \<bar>goal_size g - held_size demo_holding (goal_symbol g)\<bar>))
           (filter (\<lambda>g. goal_size g \<noteq> held_size demo_holding (goal_symbol g)) ?g2)"
    by blast
  have calls': "gw_calls st' = map Place sent" and pm': "pm_orders st' = sent"
    using calls pm by (simp_all add: demo_holding_def demo_state_def)
  have contents': "map (\<lambda>ord. (symbol ord, entrust_action ord, entrust_size ord)) sent
      = [(''A'', SELL, 200)]"
    using contents by (simp add: held_size_def demo_holding_def demo_state_def)
  show ?thesis
    using first second run calls' pm' contents'
    by (intro conjI exI [of _ st'] exI [of _ sent])
qed

subsection \<open>Rounding to a double\<close>

text \<open>
  Where the exponent of \<open>x\<close> is known, \<open>round_double\<close> is a rounding of \<open>x\<close> scaled by a
  power of two; a number with at most 53 significant bits is a double, and rounds to
  itself.
\<close>

lemma round_half_even_of_int [simp]: "round_half_even (of_int n) = n"
  by (simp add: round_half_even_def)

lemma ulp_eq:
  assumes "x \<noteq> 0" and "2 powr of_int e \<le> \<bar>x\<bar>" and "\<bar>x\<bar> < 2 powr of_int (e + 1)"
    and "- 1022 \<le> e"
  shows "ulp x = 2 powr of_int (e - 52)"
proof -
  have "\<lfloor>log 2 \<bar>x\<bar>\<rfloor> = e"
    using assms by (subst floor_log_eq_powr_iff) auto
  moreover have "max e (- 1022) = e" using assms(4) by (rule max_absorb1)
  ultimately show ?thesis by (simp only: ulp_def)
qed

lemma round_double_eval:
  assumes "x \<noteq> 0" and "2 powr of_int e \<le> \<bar>x\<bar>" and "\<bar>x\<bar> < 2 powr of_int (e + 1)"
    and "- 1022 \<le> e"
    and "round_half_even (x / 2 powr of_int (e - 52)) = m"
    and "\<bar>of_int m * 2 powr of_int (e - 52)\<bar> \<le> max_double"
  shows "round_double x = Finite (of_int m * 2 powr of_int (e - 52))"
  using assms(1,5,6) ulp_eq [OF assms(1-4)] by (simp add: round_double_def Let_def)

lemma round_double_dyadic:
  assumes m: "\<bar>m\<bar> < 2 ^ 53" and k: "k \<le> 1022"
  shows "round_double (of_int m / 2 ^ k) = Finite (of_int m / 2 ^ k)"
proof (cases "m = 0")
  case True
  then show ?thesis by (simp add: round_double_def)
next
  case False
  define x where "x = real_of_int m / 2 ^ k"
  define e where "e = \<lfloor>log 2 \<bar>x\<bar>\<rfloor>"
  have x0: "x \<noteq> 0" using False by (simp add: x_def)
  have xk: "x = of_int m * 2 powr (- real k)"
    by (simp add: x_def powr_minus powr_realpow field_simps)
  have lo: "2 powr (- real k) \<le> \<bar>x\<bar>"
  proof -
    have "1 \<le> \<bar>real_of_int m\<bar>" using False by (simp flip: of_int_abs)
    then have "1 * 2 powr (- real k) \<le> \<bar>real_of_int m\<bar> * 2 powr (- real k)"
      by (intro mult_right_mono) simp_all
    then show ?thesis by (simp add: xk abs_mult)
  qed
  have hi: "\<bar>x\<bar> < 2 powr (53 - real k)"
  proof -
    have "\<bar>real_of_int m\<bar> < 2 ^ 53" using m by (simp flip: of_int_abs)
    then have "\<bar>real_of_int m\<bar> * 2 powr (- real k) < 2 ^ 53 * 2 powr (- real k)"
      by (intro mult_strict_right_mono) simp_all
    also have "(2::real) ^ 53 * 2 powr (- real k) = 2 powr (53 - real k)"
      by (simp add: powr_diff powr_minus powr_realpow field_simps)
    finally show ?thesis by (simp add: xk abs_mult)
  qed
  have bracket: "2 powr of_int e \<le> \<bar>x\<bar>" "\<bar>x\<bar> < 2 powr of_int (e + 1)"
    using floor_log_eq_powr_iff [of "\<bar>x\<bar>" 2 e] x0 by (simp_all add: e_def)
  have e_lo: "- int k \<le> e"
  proof (rule ccontr)
    assume "\<not> - int k \<le> e"
    then have "real_of_int (e + 1) \<le> - real k" by linarith
    then have "2 powr of_int (e + 1) \<le> (2::real) powr (- real k)"
      by (intro powr_mono) simp_all
    with bracket(2) lo show False by linarith
  qed
  have e_hi: "e \<le> 52 - int k"
  proof (rule ccontr)
    assume "\<not> e \<le> 52 - int k"
    then have "53 - real k \<le> real_of_int e" by linarith
    then have "(2::real) powr (53 - real k) \<le> 2 powr of_int e"
      by (intro powr_mono) simp_all
    with bracket(1) hi show False by linarith
  qed
  have e1022: "- 1022 \<le> e" using e_lo k by linarith
  define j where "j = nat (52 - int k - e)"
  have j: "real j = 52 - real k - real_of_int e"
    using e_hi by (simp add: j_def)
  have u: "ulp x = 2 powr of_int (e - 52)"
    by (rule ulp_eq [OF x0 bracket e1022])
  have quot: "x / ulp x = of_int (m * 2 ^ j)"
  proof -
    have "x / ulp x = x / 2 powr of_int (e - 52)"
      by (simp only: u)
    also have "\<dots> = of_int m * (2 powr (- real k) / 2 powr of_int (e - 52))"
      by (simp add: xk)
    also have "2 powr (- real k) / 2 powr of_int (e - 52) = (2::real) powr (real j)"
    proof -
      have "2 powr (- real k) / 2 powr real_of_int (e - 52)
            = (2::real) powr (- real k - real_of_int (e - 52))"
        by (rule powr_diff [symmetric])
      also have "- real k - real_of_int (e - 52) = real j" using j by simp
      finally show ?thesis .
    qed
    also have "\<dots> = 2 ^ j" by (simp add: powr_realpow)
    finally show ?thesis by simp
  qed
  have undo: "of_int (m * 2 ^ j) * ulp x = x"
  proof -
    have "of_int (m * 2 ^ j) * ulp x = of_int (m * 2 ^ j) * 2 powr of_int (e - 52)"
      by (simp only: u)
    also have "\<dots> = of_int m * (2 powr (real j) * 2 powr of_int (e - 52))"
      by (simp add: powr_realpow)
    also have "2 powr (real j) * 2 powr of_int (e - 52) = (2::real) powr (- real k)"
    proof -
      have "2 powr (real j) * 2 powr real_of_int (e - 52)
            = (2::real) powr (real j + real_of_int (e - 52))"
        by (rule powr_add [symmetric])
      also have "real j + real_of_int (e - 52) = - real k" using j by simp
      finally show ?thesis .
    qed
    finally show ?thesis by (simp add: xk)
  qed
  have "\<bar>x\<bar> \<le> \<bar>real_of_int m\<bar>"
  proof -
    have "(1::real) \<le> 2 ^ k" by simp
    then have "\<bar>real_of_int m\<bar> * 1 \<le> \<bar>real_of_int m\<bar> * 2 ^ k"
      by (intro mult_left_mono) simp_all
    then show ?thesis by (simp add: x_def divide_le_eq)
  qed
  also have "\<dots> < 2 ^ 53" using m by (simp flip: of_int_abs)
  also have "\<dots> \<le> max_double" by (simp add: max_double_def)
  finally have small: "\<not> max_double < \<bar>x\<bar>" by simp
  have "round_double x = Finite x"
    using x0 small
    by (simp only: round_double_def Let_def quot undo round_half_even_of_int if_False)
  then show ?thesis by (simp only: x_def)
qed

lemma round_double_numeral:
  assumes "(numeral n :: real) < 2 ^ 53"
  shows "round_double (numeral n) = Finite (numeral n)"
proof -
  have "\<bar>numeral n :: int\<bar> < 2 ^ 53"
  proof -
    have "real_of_int (numeral n) < real_of_int (2 ^ 53)" using assms by simp
    then have "(numeral n :: int) < 2 ^ 53" by (simp only: of_int_less_iff)
    then show ?thesis by simp
  qed
  from round_double_dyadic [OF this, of 0] show ?thesis by simp
qed

lemma round_double_zero: "round_double 0 = Finite 0"
  by (simp add: round_double_def)

lemma round_double_scaled:
  assumes x0: "x \<noteq> 0" and lo: "2 ^ 52 / 2 ^ k \<le> \<bar>x\<bar>" and hi: "\<bar>x\<bar> < 2 ^ 53 / 2 ^ k"
    and k: "k \<le> 1074"
    and m: "round_half_even (x * 2 ^ k) = m"
    and bound: "\<bar>of_int m / 2 ^ k\<bar> \<le> max_double"
  shows "round_double x = Finite (of_int m / 2 ^ k)"
proof -
  have u: "2 powr of_int (52 - int k - 52) = 1 / (2::real) ^ k"
  proof -
    have "(2::real) powr of_int (52 - int k - 52) = 2 powr (- real k)" by simp
    also have "\<dots> = 1 / 2 ^ k" by (simp add: powr_minus powr_realpow divide_inverse)
    finally show ?thesis .
  qed
  have p52: "2 powr of_int (52 - int k) = 2 ^ 52 / (2::real) ^ k"
  proof -
    have "(2::real) powr of_int (52 - int k) = 2 powr (real 52 - real k)" by simp
    also have "\<dots> = 2 powr (real 52) / 2 powr (real k)" by (rule powr_diff)
    also have "\<dots> = 2 ^ 52 / 2 ^ k" by (simp only: powr_realpow zero_less_numeral)
    finally show ?thesis .
  qed
  have p53: "2 powr of_int (52 - int k + 1) = 2 ^ 53 / (2::real) ^ k"
  proof -
    have "(2::real) powr of_int (52 - int k + 1) = 2 powr (real 53 - real k)" by simp
    also have "\<dots> = 2 powr (real 53) / 2 powr (real k)" by (rule powr_diff)
    also have "\<dots> = 2 ^ 53 / 2 ^ k" by (simp only: powr_realpow zero_less_numeral)
    finally show ?thesis .
  qed
  have "round_double x = Finite (of_int m * 2 powr of_int (52 - int k - 52))"
  proof (rule round_double_eval [OF x0])
    show "2 powr of_int (52 - int k) \<le> \<bar>x\<bar>" using lo by (simp only: p52)
    show "\<bar>x\<bar> < 2 powr of_int (52 - int k + 1)" using hi by (simp only: p53)
    show "- 1022 \<le> 52 - int k" using k by simp
    show "round_half_even (x / 2 powr of_int (52 - int k - 52)) = m"
      using m by (simp only: u) simp
    show "\<bar>of_int m * 2 powr of_int (52 - int k - 52)\<bar> \<le> max_double"
      using bound by (simp only: u) simp
  qed
  then show ?thesis by (simp only: u) simp
qed

lemma round_double_1e_8: "round_double (1 / 10 ^ 8) = Finite (3022314549036573 / 2 ^ 78)"
proof -
  have "round_double (1 / 10 ^ 8) = Finite (of_int 6044629098073146 / 2 ^ 79)"
    by (rule round_double_scaled) (simp_all add: round_half_even_def max_double_def)
  then show ?thesis by simp
qed


lemma round_double_three_halves: "round_double (3 / 2) = Finite (3 / 2)"
  using round_double_dyadic [of 3 1] by simp

lemma double_1e_8: "round_double (1 / 100000000) = Finite (3022314549036573 / 2 ^ 78)"
  using round_double_1e_8 by simp

text \<open>The rules that evaluate the operations on the doubles of the examples.\<close>

lemmas double_eval =
  dadd_def dsub_def dmul_def ddiv_def round_double_numeral round_double_zero
  round_double_three_halves double_1e_8

subsection \<open>Goal sizes\<close>

text \<open>
  Each iteration of the loop appends one goal position, for the symbol of the item and of
  the size \<open>item_goal_size\<close> gives; so a successful run returns one goal per item, in the
  order of the items.
\<close>

lemma gwo_body_goal:
  assumes "gwo_body st turnover prices (Some susp) item (c, gs) = Inr (c', gs')"
  shows "\<exists>g. gs' = gs @ [g] \<and> goal_symbol g = fst item \<and>
             item_goal_size st turnover prices susp item = Inr (goal_size g)"
  using assms
  by (cases item)
    (auto simp: gwo_body_def item_goal_size_def Let_def split: if_splits option.splits sum.splits)

lemma gwo_loop_goals:
  assumes "gwo_loop st turnover prices (Some susp) items (c, gs) = Inr (c', gs')"
  shows "\<exists>new. gs' = gs @ new \<and>
           list_all2 (\<lambda>item g. goal_symbol g = fst item \<and>
              item_goal_size st turnover prices susp item = Inr (goal_size g)) items new"
  using assms
proof (induction items arbitrary: c gs)
  case Nil
  then show ?case by simp
next
  case (Cons item items)
  from Cons.prems obtain c1 gs1 where
    body: "gwo_body st turnover prices (Some susp) item (c, gs) = Inr (c1, gs1)" and
    rest: "gwo_loop st turnover prices (Some susp) items (c1, gs1) = Inr (c', gs')"
    by (auto split: sum.splits)
  from gwo_body_goal [OF body] obtain g where
    g: "gs1 = gs @ [g]" "goal_symbol g = fst item"
       "item_goal_size st turnover prices susp item = Inr (goal_size g)"
    by blast
  from Cons.IH [OF rest] obtain new where
    new: "gs' = gs1 @ new"
      "list_all2 (\<lambda>item g. goal_symbol g = fst item \<and>
              item_goal_size st turnover prices susp item = Inr (goal_size g)) items new"
    by blast
  have "gs' = gs @ (g # new)" using g new by simp
  moreover have "list_all2 (\<lambda>item g. goal_symbol g = fst item \<and>
              item_goal_size st turnover prices susp item = Inr (goal_size g))
              (item # items) (g # new)"
    using g new by simp
  ultimately show ?case by blast
qed

lemma generate_weights_order_goals:
  assumes "generate_weights_order st weights_dic turnover prices algo (Some susp)
           = Inr (goals, cash_left)"
  shows "list_all2 (\<lambda>item g. goal_symbol g = fst item \<and>
              item_goal_size st turnover prices susp item = Inr (goal_size g)) weights_dic goals"
proof -
  from assms obtain c where
    "gwo_loop st turnover prices (Some susp) weights_dic (Finite 0, []) = Inr (c, goals)"
    by (auto simp: generate_weights_order_def split: if_splits sum.splits)
  from gwo_loop_goals [OF this] show ?thesis by simp
qed

text \<open>
  C10. When \<open>generate_weights_order\<close> returns, a symbol of the weight dict that is in the
  suspension list and has no position with the portfolio manager has a goal position of
  size 0, whatever its weight; no goal position of that symbol has another size.
\<close>

theorem generate_weights_order_suspended_untracked:
  assumes run: "generate_weights_order st weights_dic turnover prices algo (Some susp)
                = Inr (goals, cash_left)"
    and item: "(sec, w) \<in> set weights_dic"
    and susp: "sec \<in> set susp"
    and pos: "positions st sec = None"
  shows "\<lparr>goal_symbol = sec, goal_size = 0\<rparr> \<in> set goals \<and>
         (\<forall>g \<in> set goals. goal_symbol g = sec \<longrightarrow> goal_size g = 0)"
proof -
  let ?R = "\<lambda>item g. goal_symbol g = fst item \<and>
              item_goal_size st turnover prices susp item = Inr (goal_size g)"
  have all2: "list_all2 ?R weights_dic goals"
    by (rule generate_weights_order_goals [OF run])
  have size0: "item_goal_size st turnover prices susp (sec, v) = Inr 0" for v
    using susp pos by (simp add: item_goal_size_def)
  from item obtain i where i: "i < length weights_dic" "weights_dic ! i = (sec, w)"
    by (auto simp: in_set_conv_nth)
  with all2 have "i < length goals" "?R (sec, w) (goals ! i)"
    by (auto simp: list_all2_conv_all_nth)
  then have "goals ! i = \<lparr>goal_symbol = sec, goal_size = 0\<rparr>" "goals ! i \<in> set goals"
    using size0 [of w] by auto
  then have first: "\<lparr>goal_symbol = sec, goal_size = 0\<rparr> \<in> set goals" by simp
  have second: "goal_size g = 0" if "g \<in> set goals" "goal_symbol g = sec" for g
  proof -
    from that obtain j where j: "j < length goals" "goals ! j = g"
      by (auto simp: in_set_conv_nth)
    with all2 have "?R (weights_dic ! j) g"
      by (auto simp: list_all2_conv_all_nth)
    with that size0 [of "snd (weights_dic ! j)"] show ?thesis
      by (cases "weights_dic ! j") auto
  qed
  from first second show ?thesis by blast
qed

lemma demo_susp_run:
  "generate_weights_order demo_holding demo_weights (Finite 100000) demo_prices ''close''
     (Some [''B''])
   = Inr ([\<lparr>goal_symbol = ''A'', goal_size = 50\<rparr>, \<lparr>goal_symbol = ''B'', goal_size = 0\<rparr>],
          Finite 50000)"
  by (simp add: generate_weights_order_def gwo_body_def demo_weights_def demo_prices_def
      double_eval demo_holding_def demo_state_def)

theorem generate_weights_order_suspended_untracked_witness:
  "\<lparr>goal_symbol = ''B'', goal_size = 0\<rparr> \<in>
     set [\<lparr>goal_symbol = ''A'', goal_size = 50\<rparr>, \<lparr>goal_symbol = ''B'', goal_size = 0\<rparr>] \<and>
   generate_weights_order demo_holding demo_weights (Finite 100000) demo_prices ''close''
     (Some [''B''])
   = Inr ([\<lparr>goal_symbol = ''A'', goal_size = 50\<rparr>, \<lparr>goal_symbol = ''B'', goal_size = 0\<rparr>],
          Finite 50000)"
  using generate_weights_order_suspended_untracked [OF demo_susp_run, of "''B''" "Finite (1 / 2)"]
    demo_susp_run
  by (simp add: demo_weights_def demo_holding_def demo_state_def)




text \<open>
  Without a suspension list (None, the default of the parameter) the first item raises a
  TypeError.
\<close>

lemma generate_weights_order_no_suspension_list:
  "generate_weights_order st (item # items) turnover prices ''close'' None = Inl TypeError"
  by (cases item) (simp add: generate_weights_order_def gwo_body_def)

subsection \<open>Suspended symbols\<close>

lemma float_not_in_symbols: "\<not> py_in (PyFloat w) (map PyStr susp)"
  by (auto simp: py_in_def)

text \<open>
  So the method only divides the weights by their absolute sum, whichever symbols are
  suspended.
\<close>

lemma re_weight_suspension_only_normalizes:
  assumes "susp \<noteq> []" and "length susp \<noteq> length (universe st)" and "weights st = Some ws"
  shows "re_weight_suspension st (Some susp) =
         Inr (st\<lparr>weights := Some
           (if fless (Finite 0) (abs_sum ws)
            then map (\<lambda>(sec, w). (sec, fdiv w (abs_sum ws))) ws else ws)\<rparr>)"
proof -
  have "map (\<lambda>(sec, w). (sec, if \<not> py_in (PyFloat w) (map PyStr susp) then w else Finite 0)) ws
        = ws"
    by (induction ws) (auto simp: float_not_in_symbols)
  with assms show ?thesis
    by (simp add: re_weight_suspension_def abs_sum_def Let_def)
qed

text \<open>
  C1. The specification says a suspended symbol has weight 0 after \<open>re_weight_suspension\<close>. The
  comprehension tests the weight, not the symbol, against the suspension list, so no
  weight is set to 0: with the universe \<open>[A, B]\<close>, weights \<open>{A: 0.5, B: 0.5}\<close> and \<open>A\<close>
  suspended, \<open>A\<close> keeps its weight 0.5.
\<close>

theorem re_weight_suspension_keeps_suspended:
  "re_weight_suspension demo_weighted (Some [''A'']) = Inr demo_weighted \<and>
   map_of (the (weights demo_weighted)) ''A'' = Some (Finite (1 / 2))"
  by (simp add: re_weight_suspension_def demo_weighted_def demo_weights_def demo_state_def
      py_in_def np_sum_def dict_values_def)

subsection \<open>Normalized weights\<close>











subsection \<open>Monte-Carlo search\<close>

text \<open>The comparison of floats is a strict order, reversed by negation.\<close>

lemma fless_irrefl: "\<not> fless a a"
  by (cases a) auto

lemma fless_trans: "fless a b \<Longrightarrow> fless b c \<Longrightarrow> fless a c"
  by (cases a; cases b; cases c) auto

lemma fless_fneg: "fless (fneg a) (fneg b) = fless b a"
  by (cases a; cases b) auto

lemma fless_fneg_Finite: "fless (fneg a) (Finite x) = fless (Finite (- x)) a"
  by (cases a) auto

lemma not_fless_fle: "\<not> fless a b \<Longrightarrow> \<not> isnan a \<Longrightarrow> \<not> isnan b \<Longrightarrow> fle b a"
  by (cases a; cases b) auto

lemma fless_not_nan: "fless a b \<Longrightarrow> \<not> isnan a \<and> \<not> isnan b"
  by (cases a; cases b) auto

text \<open>
  The loop keeps either its initial pair or a candidate that is strictly below the initial
  bound, and no candidate is strictly below the bound it returns.
\<close>

lemma mc_loop_result:
  assumes "mc_loop util_func cs (m, mw) = (m', mw')"
  shows "((m' = m \<and> mw' = mw) \<or>
          (\<exists>c \<in> set cs. mw' = Some c \<and> m' = fneg (util_func c) \<and> fless m' m)) \<and>
         (\<forall>c \<in> set cs. \<not> fless (fneg (util_func c)) m')"
  using assms
proof (induction cs arbitrary: m mw)
  case Nil
  then show ?case by simp
next
  case (Cons c cs)
  let ?f = "fneg (util_func c)"
  show ?case
  proof (cases "fless ?f m")
    case True
    with Cons.prems have run: "mc_loop util_func cs (?f, Some c) = (m', mw')"
      by (simp add: Let_def)
    from Cons.IH [OF run] have
      step: "(m' = ?f \<and> mw' = Some c) \<or>
             (\<exists>d \<in> set cs. mw' = Some d \<and> m' = fneg (util_func d) \<and> fless m' ?f)"
      and rest: "\<forall>d \<in> set cs. \<not> fless (fneg (util_func d)) m'"
      by blast+
    from step True have first:
      "\<exists>d \<in> set (c # cs). mw' = Some d \<and> m' = fneg (util_func d) \<and> fless m' m"
      by (auto intro: fless_trans)
    from step have "\<not> fless ?f m'"
      by (auto simp: fless_irrefl dest: fless_trans)
    with rest first show ?thesis by auto
  next
    case False
    with Cons.prems have run: "mc_loop util_func cs (m, mw) = (m', mw')"
      by (simp add: Let_def)
    from Cons.IH [OF run] have
      step: "(m' = m \<and> mw' = mw) \<or>
             (\<exists>d \<in> set cs. mw' = Some d \<and> m' = fneg (util_func d) \<and> fless m' m)"
      and rest: "\<forall>d \<in> set cs. \<not> fless (fneg (util_func d)) m'"
      by blast+
    from step False have "\<not> fless ?f m'"
      by (auto dest: fless_trans)
    with rest step show ?thesis by auto
  qed
qed

lemma length_mc_candidates: "length (mc_candidates st rand) = 5"
  by (simp add: mc_candidates_def n_exp_def)

text \<open>
  C4. \<open>optimize_mc\<close> evaluates five candidates. When one of them has a utility above the
  sentinel \<open>-1e30\<close>, the method returns one of the candidates with an empty message, and no
  candidate has a greater utility: every candidate whose utility is a number has a utility
  at most that of the returned one. When no candidate has a utility above the sentinel,
  the result is None with a non-empty message.
\<close>

theorem optimize_mc_selects_maximum:
  "length (mc_candidates st rand) = 5 \<and>
   ((\<exists>c \<in> set (mc_candidates st rand). fless (Finite (- (10 ^ 30))) (util_func c)) \<longrightarrow>
      (\<exists>ws \<in> set (mc_candidates st rand).
         optimize_mc st rand fmt util_func = (Some ws, []) \<and>
         \<not> isnan (util_func ws) \<and>
         (\<forall>c \<in> set (mc_candidates st rand).
            \<not> fless (util_func ws) (util_func c) \<and>
            (\<not> isnan (util_func c) \<longrightarrow> fle (util_func c) (util_func ws))))) \<and>
   (\<not> (\<exists>c \<in> set (mc_candidates st rand). fless (Finite (- (10 ^ 30))) (util_func c)) \<longrightarrow>
      fst (optimize_mc st rand fmt util_func) = None \<and>
      snd (optimize_mc st rand fmt util_func) \<noteq> [])"
proof -
  let ?cs = "mc_candidates st rand"
  let ?m = "Finite (10 ^ 30)"
  obtain m' mw' where run: "mc_loop util_func ?cs (?m, None) = (m', mw')"
    by (cases "mc_loop util_func ?cs (?m, None)") auto
  from mc_loop_result [OF run] have
    step: "(m' = ?m \<and> mw' = None) \<or>
           (\<exists>c \<in> set ?cs. mw' = Some c \<and> m' = fneg (util_func c) \<and> fless m' ?m)"
    and best: "\<forall>c \<in> set ?cs. \<not> fless (fneg (util_func c)) m'"
    by blast+
  have found: "\<exists>ws \<in> set ?cs.
         optimize_mc st rand fmt util_func = (Some ws, []) \<and>
         \<not> isnan (util_func ws) \<and>
         (\<forall>c \<in> set ?cs.
            \<not> fless (util_func ws) (util_func c) \<and>
            (\<not> isnan (util_func c) \<longrightarrow> fle (util_func c) (util_func ws)))"
    if "\<exists>c \<in> set ?cs. fless (Finite (- (10 ^ 30))) (util_func c)"
  proof -
    from that obtain c where c: "c \<in> set ?cs" "fless (fneg (util_func c)) ?m"
      by (auto simp: fless_fneg_Finite)
    with best have "m' \<noteq> ?m" by auto
    with step obtain ws where ws: "ws \<in> set ?cs" "mw' = Some ws" "m' = fneg (util_func ws)"
      "fless m' ?m"
      by auto
    have res: "optimize_mc st rand fmt util_func = (Some ws, [])"
      using run ws by (simp add: optimize_mc_def)
    from ws have "fless (Finite (- (10 ^ 30))) (util_func ws)"
      by (simp add: fless_fneg_Finite)
    then have nn: "\<not> isnan (util_func ws)" by (auto dest: fless_not_nan)
    have "\<not> fless (util_func ws) (util_func d) \<and>
          (\<not> isnan (util_func d) \<longrightarrow> fle (util_func d) (util_func ws))"
      if "d \<in> set ?cs" for d
    proof -
      from best that ws have "\<not> fless (util_func ws) (util_func d)"
        by (simp add: fless_fneg)
      with nn show ?thesis by (auto intro: not_fless_fle)
    qed
    with ws res nn show ?thesis by blast
  qed
  have none_found: "fst (optimize_mc st rand fmt util_func) = None \<and>
      snd (optimize_mc st rand fmt util_func) \<noteq> []"
    if "\<not> (\<exists>c \<in> set ?cs. fless (Finite (- (10 ^ 30))) (util_func c))"
  proof -
    from that have "\<forall>c \<in> set ?cs. \<not> fless (fneg (util_func c)) ?m"
      by (simp add: fless_fneg_Finite)
    with step have "m' = ?m \<and> mw' = None" by auto
    with run show ?thesis by (simp add: optimize_mc_def)
  qed
  from found none_found length_mc_candidates show ?thesis by blast
qed

lemma demo_candidates:
  "mc_candidates demo_state demo_rand =
     [[(''A'', Finite 1), (''B'', Finite 0)],
      [(''A'', Finite (1 / 2)), (''B'', Finite (1 / 2))],
      [(''A'', Finite (1 / 3)), (''B'', Finite (2 / 3))],
      [(''A'', Finite (1 / 4)), (''B'', Finite (3 / 4))],
      [(''A'', Finite (1 / 5)), (''B'', Finite (4 / 5))]]"
  by (simp add: mc_candidates_def n_exp_def mc_candidate_def weights_mat_def np_sum_def
      demo_state_def demo_rand_def upt_rec)

theorem optimize_mc_selects_maximum_witness:
  "optimize_mc demo_state demo_rand demo_fmt weight_of_A
     = (Some [(''A'', Finite 1), (''B'', Finite 0)], []) \<and>
   fst (optimize_mc demo_state demo_rand demo_fmt (\<lambda>ws. NaN)) = None \<and>
   snd (optimize_mc demo_state demo_rand demo_fmt (\<lambda>ws. NaN)) \<noteq> []"
proof -
  have hyp: "\<exists>c \<in> set (mc_candidates demo_state demo_rand).
               fless (Finite (- (10 ^ 30))) (weight_of_A c)"
    by (simp add: demo_candidates weight_of_A_def)
  have nohyp: "\<not> (\<exists>c \<in> set (mc_candidates demo_state demo_rand).
               fless (Finite (- (10 ^ 30))) ((\<lambda>ws. NaN) c))"
    by simp
  from optimize_mc_selects_maximum [of demo_state demo_rand weight_of_A demo_fmt] hyp
  obtain ws where ws: "ws \<in> set (mc_candidates demo_state demo_rand)"
    "optimize_mc demo_state demo_rand demo_fmt weight_of_A = (Some ws, [])"
    "\<forall>c \<in> set (mc_candidates demo_state demo_rand). \<not> fless (weight_of_A ws) (weight_of_A c)"
    by blast
  from ws(3) have "\<not> fless (weight_of_A ws) (Finite 1)"
    by (simp add: demo_candidates weight_of_A_def)
  with ws(1) have "ws = [(''A'', Finite 1), (''B'', Finite 0)]"
    by (auto simp: demo_candidates weight_of_A_def)
  with ws(2) have first: "optimize_mc demo_state demo_rand demo_fmt weight_of_A
     = (Some [(''A'', Finite 1), (''B'', Finite 0)], [])" by simp
  from optimize_mc_selects_maximum [of demo_state demo_rand "\<lambda>ws. NaN" demo_fmt] nohyp
  have "fst (optimize_mc demo_state demo_rand demo_fmt (\<lambda>ws. NaN)) = None \<and>
   snd (optimize_mc demo_state demo_rand demo_fmt (\<lambda>ws. NaN)) \<noteq> []"
    by blast
  with first show ?thesis by blast
qed

end
